theory Spec2Isabelle
  imports Complex_Main
begin

section \<open>JavaScript values and the argument bag\<close>

text \<open>
  The values a tool call can carry in its \<open>arguments\<close> object. A string is the list of
  its code units (those below 256 in this development); a number is a real, which covers
  every number a JSON document can denote. The source's tests \<open>typeof v === "string"\<close>,
  \<open>typeof v === "number"\<close> and \<open>Array.isArray(v)\<close> are matches on the constructors
  \<open>JStr\<close>, \<open>JNum\<close> and \<open>JArr\<close>.
\<close>

datatype jvalue =
    JUndefined
  | JNull
  | JBool bool
  | JNum real
  | JStr string
  | JArr "jvalue list"
  | JObj "(string \<times> jvalue) list"

text \<open>\<open>Record<string, unknown>\<close>: reading a key that is absent gives \<open>undefined\<close>.\<close>

type_synonym bag = "string \<rightharpoonup> jvalue"

definition getProp :: "bag \<Rightarrow> string \<Rightarrow> jvalue" where
  "getProp args k = (case args k of None \<Rightarrow> JUndefined | Some v \<Rightarrow> v)"

text \<open>A thrown \<open>Error\<close> object; only its message is ever read.\<close>

datatype error = Error (message: string)


section \<open>String primitives used by the validator\<close>

text \<open>
  The code units that \<open>String.prototype.trim\<close> strips (white space and line terminators):
  TAB, LF, VT, FF, CR, SPACE and NBSP; the other white-space code units lie above 255.
\<close>

definition isWhiteSpace :: "char \<Rightarrow> bool" where
  "isWhiteSpace c = ((of_char c :: nat) \<in> {9, 10, 11, 12, 13, 32, 160})"

definition trim :: "string \<Rightarrow> string" where
  "trim s = rev (dropWhile isWhiteSpace (rev (dropWhile isWhiteSpace s)))"

definition startsWith :: "string \<Rightarrow> string \<Rightarrow> bool" where
  "startsWith s p = (take (length p) s = p)"

text \<open>The character class \<open>[a-zA-Z0-9_-]\<close>.\<close>

definition recipeChar :: "char \<Rightarrow> bool" where
  "recipeChar c =
     (let n = (of_char c :: nat) in
        (97 \<le> n \<and> n \<le> 122) \<or> (65 \<le> n \<and> n \<le> 90) \<or> (48 \<le> n \<and> n \<le> 57)
        \<or> c = CHR ''_'' \<or> c = CHR ''-'')"

text \<open>
  \<open>/^[a-zA-Z0-9_-]+$/.test(s)\<close>: without the \<open>m\<close> flag the anchors are the two ends of
  the input, so the whole string is one or more characters of the class.
\<close>

definition recipePattern_test :: "string \<Rightarrow> bool" where
  "recipePattern_test s = (s \<noteq> [] \<and> list_all recipeChar s)"


section \<open>validateRecipeName\<close>

definition msg_empty :: string where
  "msg_empty = ''Recipe name must be a non-empty string''"

definition msg_dash :: string where
  "msg_dash = ''Recipe name cannot start with '' @ [CHR 0x27] @ ''-'' @ [CHR 0x27]"

definition msg_chars :: string where
  "msg_chars = ''Recipe name contains invalid characters''"

fun validateRecipeName :: "jvalue \<Rightarrow> error + string" where
  "validateRecipeName (JStr name) =
     (if trim name = [] then Inl (Error msg_empty)
      else if startsWith name ''-'' then Inl (Error msg_dash)
      else if \<not> recipePattern_test name then Inl (Error msg_chars)
      else Inr name)"
| "validateRecipeName v = Inl (Error msg_empty)"


section \<open>getBaseArgs\<close>

text \<open>
  \<open>justfile && typeof justfile === "string"\<close>: the parameter is a string or \<open>undefined\<close>
  (\<open>None\<close>), and the empty string is falsy.
\<close>

definition getBaseArgs :: "string option \<Rightarrow> string list" where
  "getBaseArgs justfile =
     (let args = [''--color=never''] in
        case justfile of
          Some p \<Rightarrow> if p \<noteq> [] then args @ [''--justfile'', p] else args
        | None \<Rightarrow> args)"


section \<open>formatResult\<close>

record exec_result =
  stdout :: string
  stderr :: string
  exitCode :: int

definition NL :: string where
  "NL = [CHR 0x0A]"

definition digitChar :: "nat \<Rightarrow> char" where
  "digitChar d = ''0123456789'' ! d"

text \<open>
  The decimal numeral that a template literal produces for an integer (exit codes are
  machine integers, far below the size at which the notation changes).
\<close>

fun natToString :: "nat \<Rightarrow> string" where
  "natToString n =
     (if n < 10 then [digitChar n] else natToString (n div 10) @ [digitChar (n mod 10)])"

declare natToString.simps [simp del]

definition numberToString :: "int \<Rightarrow> string" where
  "numberToString i = (if i < 0 then ''-'' @ natToString (nat (- i)) else natToString (nat i))"

definition msg_no_output :: string where
  "msg_no_output = ''Command completed successfully''"

text \<open>The three assignments to \<open>output\<close>, in the order of the source.\<close>

definition formatResult :: "exec_result \<Rightarrow> string" where
  "formatResult result =
     (let output = stdout result;
          output = (if stderr result \<noteq> []
                    then output @ (if output \<noteq> [] then NL else []) @ stderr result
                    else output);
          output = (if exitCode result \<noteq> 0
                    then output @ NL @ ''[Exit code: '' @ numberToString (exitCode result) @ '']''
                    else output)
      in if output \<noteq> [] then output else msg_no_output)"


section \<open>execJust\<close>

text \<open>
  The executor registers five callbacks: the timer's, the two \<open>data\<close> listeners, and the
  \<open>close\<close> and \<open>error\<close> listeners of the child process. The host runs them one at a
  time, in some order; that order is the input of the model. \<open>ProcClose None\<close> is a close
  with a \<open>null\<close> exit code (the child was ended by a signal).
\<close>

datatype proc_event =
    StdoutData string
  | StderrData string
  | TimerFired
  | ProcClose "int option"
  | ProcError string

text \<open>
  The variables the callbacks share: the two buffers, the flag \<open>timedOut\<close>, whether the
  timer is still pending (set, and neither fired nor cleared), whether \<open>SIGTERM\<close> has been
  sent, and the promise (\<open>None\<close> while it is pending).
\<close>

record exec_state =
  buf_stdout :: string
  buf_stderr :: string
  timedOut :: bool
  timer_pending :: bool
  sigterm_sent :: bool
  settled :: "exec_result option"

definition DEFAULT_TIMEOUT :: real where
  "DEFAULT_TIMEOUT = 300000"

definition msg_timed_out :: string where
  "msg_timed_out = NL @ ''[Process timed out]''"

text \<open>The state when the promise executor returns: the child spawned, the timer set.\<close>

definition spawned :: exec_state where
  "spawned = \<lparr>buf_stdout = [], buf_stderr = [], timedOut = False, timer_pending = True,
               sigterm_sent = False, settled = None\<rparr>"

definition clearTimeout :: "exec_state \<Rightarrow> exec_state" where
  "clearTimeout s = s\<lparr>timer_pending := False\<rparr>"

text \<open>Only the first call of \<open>resolve\<close> settles a promise; later calls do nothing.\<close>

definition resolve :: "exec_result \<Rightarrow> exec_state \<Rightarrow> exec_state" where
  "resolve r s = (case settled s of None \<Rightarrow> s\<lparr>settled := Some r\<rparr> | Some r0 \<Rightarrow> s)"

definition onTimer :: "exec_state \<Rightarrow> exec_state" where
  "onTimer s = s\<lparr>timedOut := True, sigterm_sent := True\<rparr>"

definition onStdoutData :: "string \<Rightarrow> exec_state \<Rightarrow> exec_state" where
  "onStdoutData d s = s\<lparr>buf_stdout := buf_stdout s @ d\<rparr>"

definition onStderrData :: "string \<Rightarrow> exec_state \<Rightarrow> exec_state" where
  "onStderrData d s = s\<lparr>buf_stderr := buf_stderr s @ d\<rparr>"

definition onClose :: "int option \<Rightarrow> exec_state \<Rightarrow> exec_state" where
  "onClose code s =
     (let s = clearTimeout s in
        if timedOut s
        then resolve \<lparr>stdout = buf_stdout s, stderr = buf_stderr s @ msg_timed_out,
                      exitCode = 124\<rparr> s
        else resolve \<lparr>stdout = buf_stdout s, stderr = buf_stderr s,
                      exitCode = (case code of None \<Rightarrow> 1 | Some c \<Rightarrow> c)\<rparr> s)"

definition onError :: "string \<Rightarrow> exec_state \<Rightarrow> exec_state" where
  "onError err_message s =
     (let s = clearTimeout s in resolve \<lparr>stdout = [], stderr = err_message, exitCode = 1\<rparr> s)"

text \<open>
  One callback runs. A timer calls back at most once, and never after \<open>clearTimeout\<close>.
\<close>

fun deliver :: "proc_event \<Rightarrow> exec_state \<Rightarrow> exec_state" where
  "deliver (StdoutData d) s = onStdoutData d s"
| "deliver (StderrData d) s = onStderrData d s"
| "deliver TimerFired s =
     (if timer_pending s then onTimer (s\<lparr>timer_pending := False\<rparr>) else s)"
| "deliver (ProcClose code) s = onClose code s"
| "deliver (ProcError m) s = onError m s"

definition runEvents :: "proc_event list \<Rightarrow> exec_state" where
  "runEvents evs = fold deliver evs spawned"

text \<open>
  What leaves the executor: the command and argument vector given to \<open>spawn\<close>, the working
  directory, and the delay given to \<open>setTimeout\<close>. The environment handed to the child
  is a copy of the server's own and is left out.
\<close>

record exec_call =
  command :: string
  argv :: "string list"
  cwd :: string
  timer_ms :: real

text \<open>
  The host: the server's own current directory, and what follows a call of \<open>spawn\<close>.
  Either the body of the promise executor throws synchronously (\<open>Inl\<close>): \<open>spawn\<close> itself
  throws, as it does for a working directory that is not a directory, for an argument
  with a NUL character or for an argument vector that is too long, or the child comes
  back without streams and registering the first \<open>data\<close> listener throws. Or the body
  completes and the callbacks run in the given order (\<open>Inr\<close>).
\<close>

record host =
  process_cwd :: string
  spawn :: "exec_call \<Rightarrow> error + proc_event list"

text \<open>
  How a promise, and so an \<open>async\<close> function, ends: it is fulfilled with a value, it is
  rejected with a thrown error, or it never settles.
\<close>

datatype 'a completion = Fulfilled 'a | Rejected error | Pending

text \<open>
  \<open>workingDirectory || process.cwd()\<close>: \<open>undefined\<close> and the empty string are falsy. A
  timeout of \<open>None\<close> is the omitted third argument, which takes the default. An
  exception inside a promise executor rejects the promise. The result is the call made
  and how the promise ends.
\<close>

definition execJust ::
  "host \<Rightarrow> string list \<Rightarrow> string option \<Rightarrow> real option
     \<Rightarrow> exec_call \<times> exec_result completion" where
  "execJust h args workingDirectory timeout =
     (let call = \<lparr>command = ''just'', argv = args,
                   cwd = (case workingDirectory of
                            Some d \<Rightarrow> if d \<noteq> [] then d else process_cwd h
                          | None \<Rightarrow> process_cwd h),
                   timer_ms = (case timeout of None \<Rightarrow> DEFAULT_TIMEOUT | Some t \<Rightarrow> t)\<rparr>
      in (call,
          case spawn h call of
            Inl thrown \<Rightarrow> Rejected thrown
          | Inr evs \<Rightarrow>
              (case settled (runEvents evs) of
                 None \<Rightarrow> Pending
               | Some result \<Rightarrow> Fulfilled result)))"


section \<open>handleTool\<close>

text \<open>\<open>typeof args.k === "string" ? args.k : undefined\<close>\<close>

definition stringField :: "bag \<Rightarrow> string \<Rightarrow> string option" where
  "stringField args k = (case getProp args k of JStr s \<Rightarrow> Some s | _ \<Rightarrow> None)"

text \<open>\<open>xs.filter((a) => typeof a === "string")\<close>\<close>

fun stringElements :: "jvalue list \<Rightarrow> string list" where
  "stringElements [] = []"
| "stringElements (JStr s # xs) = s # stringElements xs"
| "stringElements (v # xs) = stringElements xs"

text \<open>
  \<open>return formatResult(await execJust(...))\<close>: awaiting a rejected promise throws its
  error on.
\<close>

definition awaitFormat ::
  "exec_call \<times> exec_result completion \<Rightarrow> exec_call list \<times> string completion" where
  "awaitFormat cr =
     (case cr of
        (call, Fulfilled result) \<Rightarrow> ([call], Fulfilled (formatResult result))
      | (call, Rejected thrown) \<Rightarrow> ([call], Rejected thrown)
      | (call, Pending) \<Rightarrow> ([call], Pending))"

text \<open>The result is the list of calls made to the executor, and how the function ends.\<close>

definition handleTool :: "host \<Rightarrow> string \<Rightarrow> bag \<Rightarrow> exec_call list \<times> string completion" where
  "handleTool h name args =
     (let workingDir = stringField args ''working_directory'';
          justfile = stringField args ''justfile'';
          baseArgs = getBaseArgs justfile
      in if name = ''list'' then
           awaitFormat (execJust h (baseArgs @ [''--list'']) workingDir None)
         else if name = ''run'' then
           (case validateRecipeName (getProp args ''recipe'') of
              Inl e \<Rightarrow> ([], Rejected e)
            | Inr recipe \<Rightarrow>
                (let timeout = (case getProp args ''timeout'' of
                                  JNum t \<Rightarrow> t | _ \<Rightarrow> DEFAULT_TIMEOUT);
                     justArgs = baseArgs @ [recipe];
                     justArgs = (case getProp args ''args'' of
                                   JArr xs \<Rightarrow> justArgs @ stringElements xs
                                 | _ \<Rightarrow> justArgs)
                 in awaitFormat (execJust h justArgs workingDir (Some timeout))))
         else if name = ''show'' then
           (case validateRecipeName (getProp args ''recipe'') of
              Inl e \<Rightarrow> ([], Rejected e)
            | Inr recipe \<Rightarrow>
                awaitFormat (execJust h (baseArgs @ [''--show'', recipe]) workingDir None))
         else ([], Rejected (Error (''Unknown tool: '' @ name))))"


section \<open>The tool-call request handler\<close>

datatype content_item = TextContent string

text \<open>\<open>isError = None\<close>: the response object has no \<open>isError\<close> key.\<close>

record response =
  content :: "content_item list"
  isError :: "bool option"

text \<open>
  \<open>arguments = None\<close> is a request without arguments; the default parameter
  \<open>args = {}\<close> of \<open>handleTool\<close> then supplies the empty object.
\<close>

definition defaultArgs :: "bag option \<Rightarrow> bag" where
  "defaultArgs arguments = (case arguments of None \<Rightarrow> Map.empty | Some a \<Rightarrow> a)"

text \<open>
  The handler returns the response, or \<open>None\<close> while it is still waiting for
  \<open>handleTool\<close>; the calls made to the executor are carried along.
\<close>

definition callToolHandler ::
  "host \<Rightarrow> string \<Rightarrow> bag option \<Rightarrow> exec_call list \<times> response option" where
  "callToolHandler h name arguments =
     (case handleTool h name (defaultArgs arguments) of
        (calls, Fulfilled result) \<Rightarrow>
          (calls, Some \<lparr>content = [TextContent result], isError = None\<rparr>)
      | (calls, Rejected error) \<Rightarrow>
          (calls, Some \<lparr>content = [TextContent (''Error: '' @ message error)],
                         isError = Some True\<rparr>)
      | (calls, Pending) \<Rightarrow> (calls, None))"


section \<open>Vocabulary for the properties\<close>

text \<open>The events whose listeners call \<open>resolve\<close>.\<close>

fun settles :: "proc_event \<Rightarrow> bool" where
  "settles (ProcClose code) = True"
| "settles (ProcError m) = True"
| "settles e = False"

text \<open>All the text that a run of events writes to each stream, in arrival order.\<close>

fun stdoutOf :: "proc_event list \<Rightarrow> string" where
  "stdoutOf [] = []"
| "stdoutOf (StdoutData d # evs) = d @ stdoutOf evs"
| "stdoutOf (e # evs) = stdoutOf evs"

fun stderrOf :: "proc_event list \<Rightarrow> string" where
  "stderrOf [] = []"
| "stderrOf (StderrData d # evs) = d @ stderrOf evs"
| "stderrOf (e # evs) = stderrOf evs"

text \<open>Reading a decimal numeral back, to check \<open>natToString\<close> against.\<close>

definition digitValue :: "char \<Rightarrow> nat" where
  "digitValue c = of_char c - 48"

definition parseNat :: "string \<Rightarrow> nat" where
  "parseNat s = foldl (\<lambda>a c. 10 * a + digitValue c) 0 s"


section \<open>Recipe names\<close>

lemma trim_empty_iff: "trim s = [] \<longleftrightarrow> list_all isWhiteSpace s"
proof -
  have "trim s = [] \<longleftrightarrow> (\<forall>c\<in>set (dropWhile isWhiteSpace s). isWhiteSpace c)"
    by (simp add: trim_def)
  also have "\<dots> \<longleftrightarrow> dropWhile isWhiteSpace s = []"
  proof
    assume a: "\<forall>c\<in>set (dropWhile isWhiteSpace s). isWhiteSpace c"
    show "dropWhile isWhiteSpace s = []"
    proof (rule ccontr)
      assume n: "dropWhile isWhiteSpace s \<noteq> []"
      then have "\<not> isWhiteSpace (hd (dropWhile isWhiteSpace s))"
        by (rule hd_dropWhile)
      moreover have "hd (dropWhile isWhiteSpace s) \<in> set (dropWhile isWhiteSpace s)"
        using n by simp
      ultimately show False using a by blast
    qed
  qed (auto dest: set_dropWhileD)
  also have "\<dots> \<longleftrightarrow> list_all isWhiteSpace s"
    by (simp add: list_all_iff)
  finally show ?thesis .
qed

text \<open>
  The white-space test is subsumed by the pattern test: it only selects the message.
\<close>

lemma white_space_fails_pattern: "list_all isWhiteSpace s \<Longrightarrow> \<not> recipePattern_test s"
  by (cases s) (auto simp: recipePattern_test_def isWhiteSpace_def recipeChar_def Let_def)

text \<open>
  Claim C1. For every value \<open>v\<close>, \<open>validateRecipeName\<close> returns the name \<open>r\<close> exactly when
  \<open>v\<close> is the string \<open>r\<close> and \<open>r\<close> is non-empty, is not all white space, does not start
  with \<open>-\<close> and matches \<open>^[a-zA-Z0-9_-]+$\<close>. Every other value makes it throw an error
  whose message names the first rule violated: not a string, or empty or all white space;
  a leading \<open>-\<close>; a character outside the class.
\<close>

theorem validateRecipeName_accepts_iff:
  "(validateRecipeName v = Inr r \<longleftrightarrow>
      v = JStr r \<and> r \<noteq> [] \<and> \<not> list_all isWhiteSpace r \<and> \<not> startsWith r ''-''
      \<and> recipePattern_test r)
   \<and> ((\<forall>s. validateRecipeName v \<noteq> Inr s) \<longrightarrow>
        validateRecipeName v =
          Inl (Error (case v of
                 JStr s \<Rightarrow> if list_all isWhiteSpace s then msg_empty
                           else if startsWith s ''-'' then msg_dash else msg_chars
               | _ \<Rightarrow> msg_empty)))"
  by (cases v) (auto simp: trim_empty_iff)

theorem validateRecipeName_accepts_iff_witness:
  "validateRecipeName (JStr ''build'') = Inr ''build''
   \<and> validateRecipeName (JStr ''-f'') = Inl (Error msg_dash)
   \<and> validateRecipeName (JStr ''a b'') = Inl (Error msg_chars)
   \<and> validateRecipeName (JNum 7) = Inl (Error msg_empty)"
  using validateRecipeName_accepts_iff [of "JStr ''build''" "''build''"]
    validateRecipeName_accepts_iff [of "JStr ''-f''" "[]"]
    validateRecipeName_accepts_iff [of "JStr ''a b''" "[]"]
    validateRecipeName_accepts_iff [of "JNum 7" "[]"]
  by (simp add: isWhiteSpace_def startsWith_def recipePattern_test_def recipeChar_def
        trim_def)


section \<open>Formatting\<close>

lemma digitValue_digitChar: "d < 10 \<Longrightarrow> digitValue (digitChar d) = d"
proof -
  assume "d < 10"
  then have "d \<in> {0, 1, 2, 3, 4, 5, 6, 7, 8, 9}" by auto
  then show ?thesis
    by (auto simp: digitValue_def digitChar_def)
qed

lemma parseNat_natToString: "parseNat (natToString n) = n"
proof (induction n rule: natToString.induct)
  case (1 n)
  show ?case
  proof (cases "n < 10")
    case True
    then show ?thesis
      by (simp add: natToString.simps [of n] parseNat_def digitValue_digitChar)
  next
    case False
    then have "parseNat (natToString (n div 10)) = n div 10" using 1 by simp
    with False show ?thesis
      by (simp add: natToString.simps [of n] parseNat_def digitValue_digitChar)
  qed
qed

text \<open>
  Claim C3. The formatted text is \<open>stdout\<close>, then \<open>stderr\<close>, then the exit-code marker.
  One newline separates the two streams, and it is there exactly when both are non-empty
  (so only when \<open>stdout\<close> is non-empty). The marker, a newline and \<open>[Exit code: N]\<close>, is
  there exactly when the exit code is not zero. When all of that is empty the fixed text
  \<open>Command completed successfully\<close> is returned instead. In particular both streams with
  exit code zero give the two blobs one newline apart and no marker.
\<close>

theorem formatResult_text:
  "formatResult r =
     (let sep = (if stdout r \<noteq> [] \<and> stderr r \<noteq> [] then NL else []);
          marker = (if exitCode r \<noteq> 0
                    then NL @ ''[Exit code: '' @ numberToString (exitCode r) @ '']'' else []);
          body = stdout r @ sep @ stderr r @ marker
      in if body = [] then msg_no_output else body)
   \<and> (stdout r \<noteq> [] \<and> stderr r \<noteq> [] \<and> exitCode r = 0 \<longrightarrow>
        formatResult r = stdout r @ NL @ stderr r)"
  by (simp add: formatResult_def Let_def NL_def)

theorem formatResult_text_witness:
  "formatResult \<lparr>stdout = ''a'', stderr = ''b'', exitCode = 0\<rparr> = ''a'' @ NL @ ''b''"
  using formatResult_text [of "\<lparr>stdout = ''a'', stderr = ''b'', exitCode = 0\<rparr>"]
  by simp

text \<open>
  Claim C10. With both streams empty and a non-zero exit code \<open>n\<close> the formatted text is
  a newline followed by \<open>[Exit code: n]\<close>: it begins with the newline, and it is not the
  no-output text.
\<close>

theorem formatResult_only_exit_code:
  "n \<noteq> 0 \<Longrightarrow>
     formatResult \<lparr>stdout = [], stderr = [], exitCode = n\<rparr>
       = NL @ ''[Exit code: '' @ numberToString n @ '']''
     \<and> hd (formatResult \<lparr>stdout = [], stderr = [], exitCode = n\<rparr>) = CHR 0x0A
     \<and> formatResult \<lparr>stdout = [], stderr = [], exitCode = n\<rparr> \<noteq> msg_no_output"
  by (simp add: formatResult_def Let_def NL_def msg_no_output_def)

theorem formatResult_only_exit_code_witness:
  "(2::int) \<noteq> 0
   \<and> formatResult \<lparr>stdout = [], stderr = [], exitCode = 2\<rparr> = NL @ ''[Exit code: 2]''"
  using formatResult_only_exit_code [of 2]
  by (simp add: numberToString_def natToString.simps digitChar_def)


section \<open>The executor's callbacks\<close>

lemmas handler_defs =
  onStdoutData_def onStderrData_def onTimer_def onClose_def onError_def
  clearTimeout_def resolve_def

text \<open>
  Before any \<open>close\<close> or \<open>error\<close> the callbacks only fill the buffers and, at most once,
  run the timer's body.
\<close>

lemma fold_deliver_quiet:
  "\<forall>e\<in>set pre. \<not> settles e \<Longrightarrow>
   fold deliver pre s =
     s\<lparr>buf_stdout := buf_stdout s @ stdoutOf pre,
       buf_stderr := buf_stderr s @ stderrOf pre,
       timedOut := timedOut s \<or> (timer_pending s \<and> TimerFired \<in> set pre),
       timer_pending := timer_pending s \<and> TimerFired \<notin> set pre,
       sigterm_sent := sigterm_sent s \<or> (timer_pending s \<and> TimerFired \<in> set pre)\<rparr>"
proof (induction pre arbitrary: s)
  case Nil
  then show ?case by simp
next
  case (Cons e pre)
  then have IH: "\<And>s. fold deliver pre s =
     s\<lparr>buf_stdout := buf_stdout s @ stdoutOf pre,
       buf_stderr := buf_stderr s @ stderrOf pre,
       timedOut := timedOut s \<or> (timer_pending s \<and> TimerFired \<in> set pre),
       timer_pending := timer_pending s \<and> TimerFired \<notin> set pre,
       sigterm_sent := sigterm_sent s \<or> (timer_pending s \<and> TimerFired \<in> set pre)\<rparr>"
    by simp
  from Cons.prems have q: "\<not> settles e" by simp
  show ?case
  proof (cases e)
    case (StdoutData d)
    then show ?thesis by (simp add: IH onStdoutData_def)
  next
    case (StderrData d)
    then show ?thesis by (simp add: IH onStderrData_def)
  next
    case TimerFired
    then show ?thesis by (auto simp: IH onTimer_def)
  next
    case (ProcClose c)
    with q show ?thesis by simp
  next
    case (ProcError m)
    with q show ?thesis by simp
  qed
qed

lemma runEvents_quiet:
  "\<forall>e\<in>set pre. \<not> settles e \<Longrightarrow>
   runEvents pre =
     \<lparr>buf_stdout = stdoutOf pre, buf_stderr = stderrOf pre,
      timedOut = (TimerFired \<in> set pre), timer_pending = (TimerFired \<notin> set pre),
      sigterm_sent = (TimerFired \<in> set pre), settled = None\<rparr>"
  by (simp add: runEvents_def fold_deliver_quiet spawned_def)

text \<open>A settled promise keeps its value; a timer that is off stays off.\<close>

lemma deliver_settled: "settled s = Some r \<Longrightarrow> settled (deliver e s) = Some r"
  by (cases e) (simp_all add: handler_defs Let_def)

lemma fold_deliver_settled: "settled s = Some r \<Longrightarrow> settled (fold deliver evs s) = Some r"
  by (induction evs arbitrary: s) (simp_all add: deliver_settled)

lemma deliver_timer_off: "\<not> timer_pending s \<Longrightarrow> \<not> timer_pending (deliver e s)"
  by (cases e) (simp_all add: handler_defs Let_def split: option.splits)

lemma fold_deliver_timer_off:
  "\<not> timer_pending s \<Longrightarrow> \<not> timer_pending (fold deliver evs s)"
  by (induction evs arbitrary: s) (simp_all add: deliver_timer_off)

text \<open>Invariant: every call of \<open>resolve\<close> comes after a \<open>clearTimeout\<close>.\<close>

lemma deliver_settled_timer_off:
  "(settled s \<noteq> None \<longrightarrow> \<not> timer_pending s) \<Longrightarrow>
   settled (deliver e s) \<noteq> None \<longrightarrow> \<not> timer_pending (deliver e s)"
  by (cases e) (auto simp: handler_defs Let_def split: option.splits)

lemma fold_deliver_settled_timer_off:
  "(settled s \<noteq> None \<longrightarrow> \<not> timer_pending s) \<Longrightarrow>
   settled (fold deliver evs s) \<noteq> None \<longrightarrow> \<not> timer_pending (fold deliver evs s)"
proof (induction evs arbitrary: s)
  case Nil
  then show ?case by simp
next
  case (Cons e evs)
  have "settled (deliver e s) \<noteq> None \<longrightarrow> \<not> timer_pending (deliver e s)"
    using Cons.prems by (rule deliver_settled_timer_off)
  then show ?case using Cons.IH [of "deliver e s"] by simp
qed

lemma runEvents_append:
  "runEvents (pre @ e # rest) = fold deliver rest (deliver e (runEvents pre))"
  by (simp add: runEvents_def)

lemma close_after_quiet:
  assumes "\<forall>e\<in>set pre. \<not> settles e"
  shows "settled (onClose code (runEvents pre)) =
          Some (if TimerFired \<in> set pre
                then \<lparr>stdout = stdoutOf pre, stderr = stderrOf pre @ msg_timed_out,
                      exitCode = 124\<rparr>
                else \<lparr>stdout = stdoutOf pre, stderr = stderrOf pre,
                      exitCode = (case code of None \<Rightarrow> 1 | Some c \<Rightarrow> c)\<rparr>)"
    and "\<not> timer_pending (onClose code (runEvents pre))"
  using assms by (simp_all add: runEvents_quiet handler_defs Let_def)

lemma error_after_quiet:
  assumes "\<forall>e\<in>set pre. \<not> settles e"
  shows "settled (onError m (runEvents pre)) =
          Some \<lparr>stdout = [], stderr = m, exitCode = 1\<rparr>"
    and "\<not> timer_pending (onError m (runEvents pre))"
  using assms by (simp_all add: runEvents_quiet handler_defs Let_def)

text \<open>The promise stays pending exactly as long as no \<open>close\<close> or \<open>error\<close> arrives.\<close>

lemma settled_None_iff:
  "settled (runEvents evs) = None \<longleftrightarrow> (\<forall>e\<in>set evs. \<not> settles e)"
proof
  assume n: "settled (runEvents evs) = None"
  show "\<forall>e\<in>set evs. \<not> settles e"
  proof (rule ccontr)
    assume "\<not> (\<forall>e\<in>set evs. \<not> settles e)"
    then have "\<exists>e\<in>set evs. settles e" by simp
    then have "\<exists>pre e rest. evs = pre @ e # rest \<and> settles e
                 \<and> (\<forall>x\<in>set pre. \<not> settles x)"
      by (rule split_list_first_prop)
    then obtain pre e rest where
      evs: "evs = pre @ e # rest" and e: "settles e"
      and pre: "\<forall>x\<in>set pre. \<not> settles x"
      by blast
    have "settled (deliver e (runEvents pre)) \<noteq> None"
      using e pre by (cases e) (simp_all add: close_after_quiet error_after_quiet)
    then obtain r where "settled (deliver e (runEvents pre)) = Some r" by auto
    then have "settled (runEvents evs) = Some r"
      by (simp add: evs runEvents_append fold_deliver_settled)
    with n show False by simp
  qed
next
  assume "\<forall>e\<in>set evs. \<not> settles e"
  then show "settled (runEvents evs) = None" by (simp add: runEvents_quiet)
qed


section \<open>Timeout against completion\<close>

text \<open>
  Claim C2, as stated, fails. The \<open>error\<close> listener settles the promise without looking
  at \<open>timedOut\<close>, and the child emits \<open>error\<close> also when a signal cannot be delivered to
  it. Here the timer fires while the child is still running, \<open>SIGTERM\<close> is refused, and
  the outcome has exit code 1 and no timeout marker; the later \<open>close\<close> finds the promise
  settled.
\<close>

theorem execJust_timeout_error_counterexample:
  "timedOut (runEvents [TimerFired, ProcError ''kill EPERM'', ProcClose None])
   \<and> settled (runEvents [TimerFired, ProcError ''kill EPERM'', ProcClose None]) =
       Some \<lparr>stdout = [], stderr = ''kill EPERM'', exitCode = 1\<rparr>"
  by (simp add: runEvents_def spawned_def handler_defs Let_def)

text \<open>
  Claim C2, amended. In every execution where the timer fires before the \<open>close\<close> event
  and no \<open>error\<close> event comes before that \<open>close\<close>, the outcome has exit code 124 and its
  \<open>stderr\<close> is the captured text followed by the timeout marker line. In every execution
  where the child closes before the timer fires (and before any \<open>error\<close>), the outcome is
  the captured output with the child's exit code (1 when that is \<open>null\<close>), and the timer
  is cancelled by the \<open>close\<close> listener and stays so. In every execution whatsoever, once
  an outcome has been delivered no timer is pending.
\<close>

theorem execJust_timeout_race:
  "((\<forall>e\<in>set pre. \<not> settles e) \<and> TimerFired \<in> set pre \<longrightarrow>
     settled (runEvents (pre @ ProcClose code # rest)) =
       Some \<lparr>stdout = stdoutOf pre, stderr = stderrOf pre @ msg_timed_out, exitCode = 124\<rparr>)
   \<and> ((\<forall>e\<in>set pre. \<not> settles e) \<and> TimerFired \<notin> set pre \<longrightarrow>
     settled (runEvents (pre @ ProcClose code # rest)) =
       Some \<lparr>stdout = stdoutOf pre, stderr = stderrOf pre,
             exitCode = (case code of None \<Rightarrow> 1 | Some c \<Rightarrow> c)\<rparr>
     \<and> \<not> timer_pending (runEvents (pre @ [ProcClose code]))
     \<and> \<not> timer_pending (runEvents (pre @ ProcClose code # rest)))
   \<and> (settled (runEvents evs) \<noteq> None \<longrightarrow> \<not> timer_pending (runEvents evs))"
proof -
  have fired: "(\<forall>e\<in>set pre. \<not> settles e) \<and> TimerFired \<in> set pre \<longrightarrow>
     settled (runEvents (pre @ ProcClose code # rest)) =
       Some \<lparr>stdout = stdoutOf pre, stderr = stderrOf pre @ msg_timed_out, exitCode = 124\<rparr>"
    by (simp add: runEvents_append close_after_quiet fold_deliver_settled)
  have closed: "(\<forall>e\<in>set pre. \<not> settles e) \<and> TimerFired \<notin> set pre \<longrightarrow>
     settled (runEvents (pre @ ProcClose code # rest)) =
       Some \<lparr>stdout = stdoutOf pre, stderr = stderrOf pre,
             exitCode = (case code of None \<Rightarrow> 1 | Some c \<Rightarrow> c)\<rparr>
     \<and> \<not> timer_pending (runEvents (pre @ [ProcClose code]))
     \<and> \<not> timer_pending (runEvents (pre @ ProcClose code # rest))"
    by (simp add: runEvents_append close_after_quiet fold_deliver_settled fold_deliver_timer_off)
  have inv: "settled (runEvents evs) \<noteq> None \<longrightarrow> \<not> timer_pending (runEvents evs)"
    unfolding runEvents_def
    by (rule fold_deliver_settled_timer_off) (simp add: spawned_def)
  from fired closed inv show ?thesis by blast
qed

theorem execJust_timeout_race_witness:
  "settled (runEvents [StderrData ''slow'', TimerFired, ProcClose None]) =
     Some \<lparr>stdout = [], stderr = ''slow'' @ msg_timed_out, exitCode = 124\<rparr>
   \<and> settled (runEvents [StdoutData ''ok'', ProcClose (Some 0), TimerFired]) =
     Some \<lparr>stdout = ''ok'', stderr = [], exitCode = 0\<rparr>
   \<and> \<not> timer_pending (runEvents [StdoutData ''ok'', ProcClose (Some 0), TimerFired])"
  using execJust_timeout_race [of "[StderrData ''slow'', TimerFired]" None "[]" "[]"]
    execJust_timeout_race [of "[StdoutData ''ok'']" "Some 0" "[TimerFired]" "[]"]
  by simp

text \<open>
  Claim C8, as stated, fails: the \<open>close\<close> listener passes the child's own exit code
  through, so a child that exits with status 124 by itself gives the outcome 124 although
  the timer never fired and no signal was sent.
\<close>

theorem exitCode_124_counterexample:
  "\<not> timedOut (runEvents [ProcClose (Some 124)])
   \<and> \<not> sigterm_sent (runEvents [ProcClose (Some 124)])
   \<and> settled (runEvents [ProcClose (Some 124)]) =
       Some \<lparr>stdout = [], stderr = [], exitCode = 124\<rparr>"
  by (simp add: runEvents_def spawned_def handler_defs Let_def)

text \<open>
  Claim C8, amended. When the outcome is delivered by the \<open>close\<close> listener, its exit code
  is 124 exactly when the timer had fired before the \<open>close\<close> or the child itself exited
  with status 124. When it is delivered by the \<open>error\<close> listener and the timer had not
  fired, its exit code is 1. So a timeout that ends in a \<open>close\<close> always shows as 124,
  and a completion without timeout shows as 124 only for a child whose own exit status is
  124.
\<close>

theorem exitCode_124_sources:
  "(\<forall>e\<in>set pre. \<not> settles e) \<longrightarrow>
     (\<exists>r. settled (runEvents (pre @ ProcClose code # rest)) = Some r
          \<and> (exitCode r = 124 \<longleftrightarrow> TimerFired \<in> set pre \<or> code = Some 124))
     \<and> (TimerFired \<notin> set pre \<longrightarrow>
          (\<exists>r. settled (runEvents (pre @ ProcError m # rest)) = Some r \<and> exitCode r = 1))"
  by (auto simp: runEvents_append close_after_quiet error_after_quiet fold_deliver_settled
        split: option.splits)

theorem exitCode_124_sources_witness:
  "(\<exists>r. settled (runEvents [TimerFired, ProcClose None]) = Some r \<and> exitCode r = 124)
   \<and> (\<exists>r. settled (runEvents [ProcClose (Some 3)]) = Some r \<and> exitCode r \<noteq> 124)
   \<and> (\<exists>r. settled (runEvents [ProcError ''spawn just ENOENT'']) = Some r \<and> exitCode r = 1)"
  using exitCode_124_sources [of "[TimerFired]" None "[]" "[]"]
    exitCode_124_sources [of "[]" "Some 3" "[]" "''spawn just ENOENT''"]
  by simp


section \<open>Spawn failure\<close>





section \<open>The three operations\<close>

text \<open>What \<open>handleTool\<close> does for each operation name.\<close>

lemma handleTool_list:
  "handleTool h ''list'' args =
     awaitFormat (execJust h (getBaseArgs (stringField args ''justfile'') @ [''--list''])
                    (stringField args ''working_directory'') None)"
  by (simp add: handleTool_def Let_def)

lemma handleTool_show:
  "handleTool h ''show'' args =
     (case validateRecipeName (getProp args ''recipe'') of
        Inl e \<Rightarrow> ([], Rejected e)
      | Inr recipe \<Rightarrow>
          awaitFormat (execJust h (getBaseArgs (stringField args ''justfile'') @ [''--show'', recipe])
                         (stringField args ''working_directory'') None))"
  by (simp add: handleTool_def Let_def)

lemma handleTool_run:
  "handleTool h ''run'' args =
     (case validateRecipeName (getProp args ''recipe'') of
        Inl e \<Rightarrow> ([], Rejected e)
      | Inr recipe \<Rightarrow>
          awaitFormat
            (execJust h
               (getBaseArgs (stringField args ''justfile'') @ [recipe]
                  @ (case getProp args ''args'' of JArr xs \<Rightarrow> stringElements xs | _ \<Rightarrow> []))
               (stringField args ''working_directory'')
               (Some (case getProp args ''timeout'' of JNum t \<Rightarrow> t | _ \<Rightarrow> DEFAULT_TIMEOUT))))"
  by (simp add: handleTool_def Let_def split: sum.splits jvalue.splits)

lemma handleTool_other:
  "name \<notin> {''list'', ''run'', ''show''} \<Longrightarrow>
   handleTool h name args = ([], Rejected (Error (''Unknown tool: '' @ name)))"
  by (simp add: handleTool_def Let_def)

lemma awaitFormat_execJust:
  "fst (awaitFormat (execJust h a wd t)) = [fst (execJust h a wd t)]"
  "snd (awaitFormat (execJust h a wd t)) =
     (case spawn h (fst (execJust h a wd t)) of
        Inl thrown \<Rightarrow> Rejected thrown
      | Inr evs \<Rightarrow>
          (case settled (runEvents evs) of
             None \<Rightarrow> Pending | Some x \<Rightarrow> Fulfilled (formatResult x)))"
  by (simp_all add: awaitFormat_def execJust_def Let_def split: option.splits sum.splits)

lemma fst_execJust:
  "fst (execJust h a wd t) =
     \<lparr>command = ''just'', argv = a,
      cwd = (case wd of Some d \<Rightarrow> if d \<noteq> [] then d else process_cwd h | None \<Rightarrow> process_cwd h),
      timer_ms = (case t of None \<Rightarrow> DEFAULT_TIMEOUT | Some t \<Rightarrow> t)\<rparr>"
  by (simp add: execJust_def Let_def)

lemma getProp_other: "k \<noteq> k' \<Longrightarrow> getProp (args(k' := v)) k = getProp args k"
  by (simp add: getProp_def)

lemma stringField_other: "k \<noteq> k' \<Longrightarrow> stringField (args(k' := v)) k = stringField args k"
  by (simp add: stringField_def getProp_other)

lemma stringElements_map_filter:
  "stringElements xs = List.map_filter (\<lambda>x. case x of JStr s \<Rightarrow> Some s | _ \<Rightarrow> None) xs"
  by (induction xs rule: stringElements.induct) simp_all

text \<open>
  Claim C6. The operation \<open>run\<close> with the arguments \<open>{recipe: "build", args: ["--release"]}\<close>
  and \<open>working_directory\<close> \<open>/repo\<close> makes one call of the executor: the command \<open>just\<close>
  with the argument vector \<open>--color=never\<close>, \<open>build\<close>, \<open>--release\<close>, in the directory
  \<open>/repo\<close>. In general the base arguments are \<open>--color=never\<close>, followed by \<open>--justfile\<close>
  and the path when a (non-empty) justfile path is supplied; \<open>list\<close> passes the base
  arguments and \<open>--list\<close>; \<open>show\<close> passes the base arguments, \<open>--show\<close> and the validated
  recipe name; \<open>run\<close> passes the base arguments, the validated recipe name, and then each
  string element of \<open>args\<close> as a token of its own, in order.
\<close>

theorem handleTool_argv:
  "fst (handleTool h ''run''
          [''recipe'' \<mapsto> JStr ''build'', ''args'' \<mapsto> JArr [JStr ''--release''],
           ''working_directory'' \<mapsto> JStr ''/repo''])
     = [\<lparr>command = ''just'', argv = [''--color=never'', ''build'', ''--release''],
         cwd = ''/repo'', timer_ms = 300000\<rparr>]
   \<and> getBaseArgs j =
       ''--color=never'' # (case j of Some p \<Rightarrow> if p \<noteq> [] then [''--justfile'', p] else []
                            | None \<Rightarrow> [])
   \<and> map argv (fst (handleTool h ''list'' args)) =
       [getBaseArgs (stringField args ''justfile'') @ [''--list'']]
   \<and> (validateRecipeName (getProp args ''recipe'') = Inr r \<longrightarrow>
        map argv (fst (handleTool h ''show'' args)) =
          [getBaseArgs (stringField args ''justfile'') @ [''--show'', r]]
        \<and> map argv (fst (handleTool h ''run'' args)) =
          [getBaseArgs (stringField args ''justfile'') @ [r]
             @ (case getProp args ''args'' of
                  JArr xs \<Rightarrow>
                    List.map_filter (\<lambda>x. case x of JStr s \<Rightarrow> Some s | _ \<Rightarrow> None) xs
                | _ \<Rightarrow> [])])"
proof -
  have ex: "fst (handleTool h ''run''
          [''recipe'' \<mapsto> JStr ''build'', ''args'' \<mapsto> JArr [JStr ''--release''],
           ''working_directory'' \<mapsto> JStr ''/repo''])
     = [\<lparr>command = ''just'', argv = [''--color=never'', ''build'', ''--release''],
         cwd = ''/repo'', timer_ms = 300000\<rparr>]"
    by (simp add: handleTool_run awaitFormat_execJust fst_execJust getProp_def
        stringField_def getBaseArgs_def DEFAULT_TIMEOUT_def
        trim_def isWhiteSpace_def startsWith_def recipePattern_test_def recipeChar_def)
  have base: "getBaseArgs j =
       ''--color=never'' # (case j of Some p \<Rightarrow> if p \<noteq> [] then [''--justfile'', p] else []
                            | None \<Rightarrow> [])"
    by (simp add: getBaseArgs_def split: option.splits)
  have list: "map argv (fst (handleTool h ''list'' args)) =
       [getBaseArgs (stringField args ''justfile'') @ [''--list'']]"
    by (simp add: handleTool_list awaitFormat_execJust fst_execJust)
  have "show": "validateRecipeName (getProp args ''recipe'') = Inr r \<longrightarrow>
        map argv (fst (handleTool h ''show'' args)) =
          [getBaseArgs (stringField args ''justfile'') @ [''--show'', r]]"
    by (simp add: handleTool_show awaitFormat_execJust fst_execJust)
  have run: "validateRecipeName (getProp args ''recipe'') = Inr r \<longrightarrow>
        map argv (fst (handleTool h ''run'' args)) =
          [getBaseArgs (stringField args ''justfile'') @ [r]
             @ (case getProp args ''args'' of
                  JArr xs \<Rightarrow>
                    List.map_filter (\<lambda>x. case x of JStr s \<Rightarrow> Some s | _ \<Rightarrow> None) xs
                | _ \<Rightarrow> [])]"
    by (simp add: handleTool_run awaitFormat_execJust fst_execJust stringElements_map_filter
          split: jvalue.splits)
  from ex base list "show" run show ?thesis by blast
qed

theorem handleTool_argv_witness:
  "map argv (fst (handleTool
       \<lparr>process_cwd = ''/srv'', spawn = (\<lambda>c. Inr [ProcClose (Some 0)])\<rparr> ''show''
       [''recipe'' \<mapsto> JStr ''test'', ''justfile'' \<mapsto> JStr ''ci.just''])) =
     [[''--color=never'', ''--justfile'', ''ci.just'', ''--show'', ''test'']]
   \<and> map argv (fst (handleTool
       \<lparr>process_cwd = ''/srv'', spawn = (\<lambda>c. Inr [ProcClose (Some 0)])\<rparr> ''run''
       [''recipe'' \<mapsto> JStr ''test'', ''args'' \<mapsto> JArr [JStr ''a b'', JNum 1, JStr ''c'']])) =
     [[''--color=never'', ''test'', ''a b'', ''c'']]"
  using handleTool_argv [of
      "\<lparr>process_cwd = ''/srv'', spawn = (\<lambda>c. Inr [ProcClose (Some 0)])\<rparr>" None
      "[''recipe'' \<mapsto> JStr ''test'', ''justfile'' \<mapsto> JStr ''ci.just'']" "''test''"]
    handleTool_argv [of
      "\<lparr>process_cwd = ''/srv'', spawn = (\<lambda>c. Inr [ProcClose (Some 0)])\<rparr>" None
      "[''recipe'' \<mapsto> JStr ''test'', ''args'' \<mapsto> JArr [JStr ''a b'', JNum 1, JStr ''c'']]"
      "''test''"]
  by (simp add: getProp_def stringField_def getBaseArgs_def
        trim_def isWhiteSpace_def startsWith_def recipePattern_test_def recipeChar_def)

text \<open>
  Claim C7. For every operation name other than \<open>list\<close>, \<open>run\<close> and \<open>show\<close>, \<open>handleTool\<close>
  throws the error with message \<open>Unknown tool: <name>\<close>; the handler answers with the text
  \<open>Error: Unknown tool: <name>\<close> and the error flag set; and no call of the executor is
  made, so no subprocess is spawned.
\<close>

theorem handleTool_unknown:
  "name \<notin> {''list'', ''run'', ''show''} \<Longrightarrow>
     handleTool h name (defaultArgs arguments) = ([], Rejected (Error (''Unknown tool: '' @ name)))
     \<and> callToolHandler h name arguments =
         ([], Some \<lparr>content = [TextContent (''Error: Unknown tool: '' @ name)],
                    isError = Some True\<rparr>)"
  by (simp add: handleTool_other callToolHandler_def)

theorem handleTool_unknown_witness:
  "callToolHandler \<lparr>process_cwd = ''/srv'', spawn = (\<lambda>c. Inr [ProcClose (Some 0)])\<rparr>
      ''delete'' None =
     ([], Some \<lparr>content = [TextContent ''Error: Unknown tool: delete''], isError = Some True\<rparr>)"
  using handleTool_unknown [of "''delete''"
      "\<lparr>process_cwd = ''/srv'', spawn = (\<lambda>c. Inr [ProcClose (Some 0)])\<rparr>" None]
  by simp

text \<open>
  Claim C9. A \<open>timeout\<close> argument matters to \<open>run\<close> only. \<open>list\<close> makes exactly one call
  of the executor, and \<open>show\<close> with a valid recipe name makes exactly one, and that call
  has the default delay of 300000 ms whatever the argument bag holds under \<open>timeout\<close>;
  \<open>show\<close> with an invalid recipe name makes no call. For every operation name other than
  \<open>run\<close>, setting, changing or removing \<open>timeout\<close> in the argument bag changes nothing in
  what \<open>handleTool\<close> does, and no call it makes has another delay than 300000 ms. For
  \<open>run\<close> with a valid recipe name the one call has the \<open>timeout\<close> argument as its delay
  when that is a number, and 300000 ms otherwise.
\<close>

theorem handleTool_timeout_only_run:
  "map timer_ms (fst (handleTool h ''list'' (args(''timeout'' := v)))) = [300000]
   \<and> (validateRecipeName (getProp args ''recipe'') = Inr r \<longrightarrow>
        map timer_ms (fst (handleTool h ''show'' (args(''timeout'' := v)))) = [300000])
   \<and> ((\<forall>s. validateRecipeName (getProp args ''recipe'') \<noteq> Inr s) \<longrightarrow>
        fst (handleTool h ''show'' (args(''timeout'' := v))) = [])
   \<and> (name \<noteq> ''run'' \<longrightarrow>
        handleTool h name (args(''timeout'' := v)) = handleTool h name args
        \<and> (\<forall>call\<in>set (fst (handleTool h name args)). timer_ms call = 300000))
   \<and> (validateRecipeName (getProp args ''recipe'') = Inr r \<longrightarrow>
        map timer_ms (fst (handleTool h ''run'' args)) =
          [case getProp args ''timeout'' of JNum t \<Rightarrow> t | _ \<Rightarrow> 300000])"
proof -
  have list_v: "map timer_ms (fst (handleTool h ''list'' (args(''timeout'' := v)))) = [300000]"
    by (simp add: handleTool_list awaitFormat_execJust fst_execJust DEFAULT_TIMEOUT_def)
  have show_v: "validateRecipeName (getProp args ''recipe'') = Inr r \<longrightarrow>
        map timer_ms (fst (handleTool h ''show'' (args(''timeout'' := v)))) = [300000]"
    by (simp add: handleTool_show getProp_other awaitFormat_execJust fst_execJust
          DEFAULT_TIMEOUT_def)
  have show_n: "(\<forall>s. validateRecipeName (getProp args ''recipe'') \<noteq> Inr s) \<longrightarrow>
        fst (handleTool h ''show'' (args(''timeout'' := v))) = []"
    by (cases "validateRecipeName (getProp args ''recipe'')")
       (simp_all add: handleTool_show getProp_other)
  have list: "handleTool h ''list'' (args(''timeout'' := v)) = handleTool h ''list'' args"
    by (simp add: handleTool_list stringField_other)
  have "show": "handleTool h ''show'' (args(''timeout'' := v)) = handleTool h ''show'' args"
    by (simp add: handleTool_show stringField_other getProp_other split: sum.splits)
  have other: "name \<notin> {''list'', ''run'', ''show''} \<Longrightarrow>
      handleTool h name (args(''timeout'' := v)) = handleTool h name args"
    by (simp add: handleTool_other)
  have same: "name \<noteq> ''run'' \<longrightarrow>
      handleTool h name (args(''timeout'' := v)) = handleTool h name args"
    using list "show" other by blast
  have list_t: "\<forall>call\<in>set (fst (handleTool h ''list'' args)). timer_ms call = 300000"
    by (simp add: handleTool_list awaitFormat_execJust fst_execJust DEFAULT_TIMEOUT_def)
  have show_t: "\<forall>call\<in>set (fst (handleTool h ''show'' args)). timer_ms call = 300000"
    by (simp add: handleTool_show awaitFormat_execJust fst_execJust DEFAULT_TIMEOUT_def
          split: sum.splits)
  have other_t: "name \<notin> {''list'', ''run'', ''show''} \<Longrightarrow>
      \<forall>call\<in>set (fst (handleTool h name args)). timer_ms call = 300000"
    by (simp add: handleTool_other)
  have dflt: "name \<noteq> ''run'' \<longrightarrow>
      (\<forall>call\<in>set (fst (handleTool h name args)). timer_ms call = 300000)"
    using list_t show_t other_t by blast
  have run: "validateRecipeName (getProp args ''recipe'') = Inr r \<longrightarrow>
        map timer_ms (fst (handleTool h ''run'' args)) =
          [case getProp args ''timeout'' of JNum t \<Rightarrow> t | _ \<Rightarrow> 300000]"
    by (simp add: handleTool_run awaitFormat_execJust fst_execJust DEFAULT_TIMEOUT_def
          split: jvalue.splits)
  from list_v show_v show_n same dflt run show ?thesis by blast
qed

theorem handleTool_timeout_only_run_witness:
  "map timer_ms (fst (handleTool
       \<lparr>process_cwd = ''/srv'', spawn = (\<lambda>c. Inr [ProcClose (Some 0)])\<rparr> ''list''
       [''timeout'' \<mapsto> JNum 5])) = [300000]
   \<and> map timer_ms (fst (handleTool
       \<lparr>process_cwd = ''/srv'', spawn = (\<lambda>c. Inr [ProcClose (Some 0)])\<rparr> ''show''
       [''recipe'' \<mapsto> JStr ''build'', ''timeout'' \<mapsto> JNum 5])) = [300000]
   \<and> map timer_ms (fst (handleTool
       \<lparr>process_cwd = ''/srv'', spawn = (\<lambda>c. Inr [ProcClose (Some 0)])\<rparr> ''run''
       [''recipe'' \<mapsto> JStr ''build'', ''timeout'' \<mapsto> JNum 5])) = [5]"
  using handleTool_timeout_only_run [of
      "\<lparr>process_cwd = ''/srv'', spawn = (\<lambda>c. Inr [ProcClose (Some 0)])\<rparr>"
      Map.empty "Some (JNum 5)" "[]" "''list''"]
    handleTool_timeout_only_run [of
      "\<lparr>process_cwd = ''/srv'', spawn = (\<lambda>c. Inr [ProcClose (Some 0)])\<rparr>"
      "[''recipe'' \<mapsto> JStr ''build'', ''timeout'' \<mapsto> JNum 5]" "Some (JNum 5)" "''build''"
      "''show''"]
  by (simp add: getProp_def handleTool_list awaitFormat_execJust fst_execJust
        DEFAULT_TIMEOUT_def
        trim_def isWhiteSpace_def startsWith_def recipePattern_test_def recipeChar_def)


section \<open>The boundary of a request\<close>

lemma handleTool_cases:
  "(\<exists>e. handleTool h name args = ([], Rejected e))
   \<or> (\<exists>a wd t. handleTool h name args = awaitFormat (execJust h a wd t))"
proof -
  consider "name = ''list''" | "name = ''run''" | "name = ''show''"
    | "name \<notin> {''list'', ''run'', ''show''}" by auto
  then show ?thesis
  proof cases
    case 1
    then show ?thesis by (auto simp: handleTool_list)
  next
    case 2
    then show ?thesis
      by (cases "validateRecipeName (getProp args ''recipe'')")
         (auto simp: handleTool_run)
  next
    case 3
    then show ?thesis
      by (cases "validateRecipeName (getProp args ''recipe'')")
         (auto simp: handleTool_show)
  next
    case 4
    then show ?thesis by (simp add: handleTool_other)
  qed
qed

lemma handleTool_pending_iff:
  "snd (handleTool h name args) = Pending \<longleftrightarrow>
     (\<exists>call evs. fst (handleTool h name args) = [call] \<and> spawn h call = Inr evs
            \<and> (\<forall>e\<in>set evs. \<not> settles e))"
proof -
  from handleTool_cases [of h name args] show ?thesis
  proof
    assume "\<exists>e. handleTool h name args = ([], Rejected e)"
    then show ?thesis by auto
  next
    assume "\<exists>a wd t. handleTool h name args = awaitFormat (execJust h a wd t)"
    then obtain a wd t where eq: "handleTool h name args = awaitFormat (execJust h a wd t)"
      by blast
    show ?thesis
      by (cases "spawn h (fst (execJust h a wd t))")
         (simp_all add: eq awaitFormat_execJust settled_None_iff [symmetric]
            split: option.splits)
  qed
qed

text \<open>
  Claim C5. The handler has no way to end by a throw. When \<open>handleTool\<close> returns the
  text \<open>s\<close>, the response is \<open>{ text: s }\<close> without an error flag. When \<open>handleTool\<close>
  throws, the response is \<open>{ text: "Error: <message>", isError: true }\<close>; an invalid
  recipe name for \<open>run\<close> or \<open>show\<close> is such a throw, with the validator's message, before
  any subprocess, and so is a synchronous exception of \<open>spawn\<close>, with that exception's
  message. The response is missing only while the handler waits for a subprocess that
  neither closes nor emits an error. Every response has exactly one of the two shapes.
\<close>

theorem callToolHandler_response:
  "(\<forall>s. snd (handleTool h name (defaultArgs arguments)) = Fulfilled s \<longrightarrow>
        snd (callToolHandler h name arguments) =
          Some \<lparr>content = [TextContent s], isError = None\<rparr>)
   \<and> (\<forall>e. snd (handleTool h name (defaultArgs arguments)) = Rejected e \<longrightarrow>
        snd (callToolHandler h name arguments) =
          Some \<lparr>content = [TextContent (''Error: '' @ message e)], isError = Some True\<rparr>)
   \<and> (\<forall>e. name \<in> {''run'', ''show''}
          \<and> validateRecipeName (getProp (defaultArgs arguments) ''recipe'') = Inl e \<longrightarrow>
        callToolHandler h name arguments =
          ([], Some \<lparr>content = [TextContent (''Error: '' @ message e)], isError = Some True\<rparr>))
   \<and> (\<forall>call e. fst (callToolHandler h name arguments) = [call] \<and> spawn h call = Inl e \<longrightarrow>
        snd (callToolHandler h name arguments) =
          Some \<lparr>content = [TextContent (''Error: '' @ message e)], isError = Some True\<rparr>)
   \<and> (snd (callToolHandler h name arguments) = None \<longleftrightarrow>
        (\<exists>call evs. fst (callToolHandler h name arguments) = [call] \<and> spawn h call = Inr evs
               \<and> (\<forall>e\<in>set evs. \<not> settles e)))
   \<and> (\<forall>resp. snd (callToolHandler h name arguments) = Some resp \<longrightarrow>
        (isError resp = Some True \<and> (\<exists>m. content resp = [TextContent (''Error: '' @ m)]))
        \<noteq> (isError resp = None \<and> (\<exists>s. content resp = [TextContent s])))"
proof -
  obtain calls c where ht: "handleTool h name (defaultArgs arguments) = (calls, c)"
    by (cases "handleTool h name (defaultArgs arguments)")
  have fst_eq: "fst (callToolHandler h name arguments) = calls"
    by (cases c) (simp_all add: callToolHandler_def ht)
  have ok: "\<forall>s. snd (handleTool h name (defaultArgs arguments)) = Fulfilled s \<longrightarrow>
        snd (callToolHandler h name arguments) =
          Some \<lparr>content = [TextContent s], isError = None\<rparr>"
    by (simp add: callToolHandler_def ht)
  have err: "\<forall>e. snd (handleTool h name (defaultArgs arguments)) = Rejected e \<longrightarrow>
        snd (callToolHandler h name arguments) =
          Some \<lparr>content = [TextContent (''Error: '' @ message e)], isError = Some True\<rparr>"
    by (simp add: callToolHandler_def ht)
  have bad: "\<forall>e. name \<in> {''run'', ''show''}
          \<and> validateRecipeName (getProp (defaultArgs arguments) ''recipe'') = Inl e \<longrightarrow>
        callToolHandler h name arguments =
          ([], Some \<lparr>content = [TextContent (''Error: '' @ message e)], isError = Some True\<rparr>)"
    by (auto simp: callToolHandler_def handleTool_run handleTool_show)
  have "snd (callToolHandler h name arguments) = None \<longleftrightarrow> c = Pending"
    by (cases c) (simp_all add: callToolHandler_def ht)
  also have "\<dots> \<longleftrightarrow> (\<exists>call evs. calls = [call] \<and> spawn h call = Inr evs
                 \<and> (\<forall>e\<in>set evs. \<not> settles e))"
    using handleTool_pending_iff [of h name "defaultArgs arguments"] by (simp add: ht)
  finally have pend: "snd (callToolHandler h name arguments) = None \<longleftrightarrow>
        (\<exists>call evs. fst (callToolHandler h name arguments) = [call] \<and> spawn h call = Inr evs
               \<and> (\<forall>e\<in>set evs. \<not> settles e))"
    by (simp add: fst_eq)
  have thrown: "\<forall>call e. fst (callToolHandler h name arguments) = [call] \<and> spawn h call = Inl e \<longrightarrow>
        snd (callToolHandler h name arguments) =
          Some \<lparr>content = [TextContent (''Error: '' @ message e)], isError = Some True\<rparr>"
  proof (intro allI impI)
    fix call e
    assume a: "fst (callToolHandler h name arguments) = [call] \<and> spawn h call = Inl e"
    from handleTool_cases [of h name "defaultArgs arguments"]
    have "c = Rejected e"
    proof
      assume "\<exists>e. handleTool h name (defaultArgs arguments) = ([], Rejected e)"
      then show ?thesis using a by (auto simp: ht fst_eq)
    next
      assume "\<exists>a wd t. handleTool h name (defaultArgs arguments) = awaitFormat (execJust h a wd t)"
      then obtain a' wd t where
        eq: "handleTool h name (defaultArgs arguments) = awaitFormat (execJust h a' wd t)"
        by blast
      have "calls = [fst (execJust h a' wd t)]"
        using eq ht awaitFormat_execJust(1) [of h a' wd t] by (metis fst_conv)
      then have "fst (execJust h a' wd t) = call" using a by (simp add: fst_eq)
      then have "snd (awaitFormat (execJust h a' wd t)) = Rejected e"
        using a by (simp add: awaitFormat_execJust)
      then show ?thesis using eq ht by (metis snd_conv)
    qed
    then show "snd (callToolHandler h name arguments) =
          Some \<lparr>content = [TextContent (''Error: '' @ message e)], isError = Some True\<rparr>"
      by (simp add: callToolHandler_def ht)
  qed
  have one: "\<forall>resp. snd (callToolHandler h name arguments) = Some resp \<longrightarrow>
        (isError resp = Some True \<and> (\<exists>m. content resp = [TextContent (''Error: '' @ m)]))
        \<noteq> (isError resp = None \<and> (\<exists>s. content resp = [TextContent s]))"
    by (cases c) (auto simp: callToolHandler_def ht)
  from ok err bad thrown pend one show ?thesis by blast
qed

theorem callToolHandler_response_witness:
  "callToolHandler \<lparr>process_cwd = ''/srv'', spawn = (\<lambda>c. Inr [ProcClose (Some 0)])\<rparr>
      ''run'' (Some [''recipe'' \<mapsto> JStr ''a;b'']) =
     ([], Some \<lparr>content = [TextContent ''Error: Recipe name contains invalid characters''],
                isError = Some True\<rparr>)
   \<and> snd (callToolHandler
        \<lparr>process_cwd = ''/srv'', spawn = (\<lambda>c. Inr [StdoutData ''ok'', ProcClose (Some 0)])\<rparr>
        ''list'' None) \<noteq> None"
  using callToolHandler_response [of
      "\<lparr>process_cwd = ''/srv'', spawn = (\<lambda>c. Inr [ProcClose (Some 0)])\<rparr>"
      "''run''" "Some [''recipe'' \<mapsto> JStr ''a;b'']"]
    callToolHandler_response [of
      "\<lparr>process_cwd = ''/srv'', spawn = (\<lambda>c. Inr [StdoutData ''ok'', ProcClose (Some 0)])\<rparr>"
      "''list''" None]
  by (simp add: getProp_def defaultArgs_def msg_chars_def
        trim_def isWhiteSpace_def startsWith_def recipePattern_test_def recipeChar_def)

end
